theory Spec2Isabelle
  imports Main "HOL-Library.Word" "HOL-Library.Signed_Division"
begin

section \<open>The front-end helpers of \<^verbatim>\<open>frontend/src/utils/program.ts\<close>\<close>

text \<open>
  The helpers work on \<^verbatim>\<open>BN\<close> values (bn.js, arbitrary precision, signed) and on
  JavaScript numbers. A \<^verbatim>\<open>BN\<close> is an \<^typ>\<open>int\<close>. A JavaScript number that holds a
  time in seconds is an \<^typ>\<open>int\<close> as well: the callers pass
  \<^verbatim>\<open>Math.floor(Date.now() / 1000)\<close>, and \<^verbatim>\<open>+\<close>, \<^verbatim>\<open>-\<close> and the comparisons of
  doubles are exact as long as every number involved is a safe integer (magnitude below
  \<open>2 ^ 53\<close>). Beyond that range a double sum is rounded and the integer sum of the
  model is not the number the code holds, so what is proved of a schedule that is not
  revoked is proved where its times are safe (\<open>safe_times\<close> below). The assertions of bn.js are branches of the model: \<^verbatim>\<open>toNumber()\<close> and
  \<^verbatim>\<open>new BN(number)\<close> refuse a magnitude of 53 bits or more, \<^verbatim>\<open>div\<close> and
  \<^verbatim>\<open>mod\<close> refuse a zero divisor, \<^verbatim>\<open>new BN(string)\<close> refuses a character that is
  not a decimal digit. A \<^verbatim>\<open>PublicKey\<close> is its base58 string.
\<close>

datatype js_error = NumberTooLarge | DivisionByZero | InvalidCharacter

definition js_safe :: "int \<Rightarrow> bool" where
  "js_safe n \<longleftrightarrow> \<bar>n\<bar> < 2 ^ 53"

definition bn_toNumber :: "int \<Rightarrow> js_error + int" where
  "bn_toNumber n = (if js_safe n then Inr n else Inl NumberTooLarge)"

definition bn_of_number :: "int \<Rightarrow> js_error + int" where
  "bn_of_number n = (if js_safe n then Inr n else Inl NumberTooLarge)"

text \<open>\<^verbatim>\<open>a.div(b)\<close> and \<^verbatim>\<open>a.mod(b)\<close> of bn.js truncate towards zero.\<close>

definition bn_div :: "int \<Rightarrow> int \<Rightarrow> js_error + int" where
  "bn_div a b = (if b = 0 then Inl DivisionByZero else Inr (a sdiv b))"


record VestingSchedule =
  admin :: string
  beneficiary :: string
  mint :: string
  totalAmount :: int
  claimedAmount :: int
  startTime :: int
  cliffDuration :: int
  vestingDuration :: int
  isRevoked :: bool
  revokedAmount :: int
  bump :: nat
  vaultBump :: nat

definition calculateVestedAmount :: "VestingSchedule \<Rightarrow> int \<Rightarrow> js_error + int" where
  "calculateVestedAmount schedule currentTime =
     (if isRevoked schedule then Inr (totalAmount schedule - revokedAmount schedule)
      else case bn_toNumber (startTime schedule) of Inl e \<Rightarrow> Inl e | Inr startTime' \<Rightarrow>
        (case bn_toNumber (cliffDuration schedule) of Inl e \<Rightarrow> Inl e | Inr cliffDuration' \<Rightarrow>
        (case bn_toNumber (vestingDuration schedule) of Inl e \<Rightarrow> Inl e | Inr vestingDuration' \<Rightarrow>
          (let cliffEnd = startTime' + cliffDuration';
               vestingEnd = startTime' + vestingDuration'
           in if currentTime < cliffEnd then Inr 0
              else if currentTime \<ge> vestingEnd then Inr (totalAmount schedule)
              else (let elapsed = currentTime - startTime'
                    in case bn_of_number elapsed of Inl e \<Rightarrow> Inl e | Inr elapsedBN \<Rightarrow>
                      (case bn_of_number vestingDuration' of Inl e \<Rightarrow> Inl e | Inr durationBN \<Rightarrow>
                         bn_div (totalAmount schedule * elapsedBN) durationBN))))))"

definition calculateClaimableAmount :: "VestingSchedule \<Rightarrow> int \<Rightarrow> js_error + int" where
  "calculateClaimableAmount schedule currentTime =
     (case calculateVestedAmount schedule currentTime of Inl e \<Rightarrow> Inl e | Inr vested \<Rightarrow>
        (let claimable = vested - claimedAmount schedule
         in Inr (if claimable > 0 then claimable else 0)))"

text \<open>
  A schedule has safe times when the numbers \<^verbatim>\<open>calculateVestedAmount\<close> forms from
  its three time fields are safe integers: the fields themselves, which
  \<^verbatim>\<open>toNumber()\<close> asserts, and the two sums \<^verbatim>\<open>cliffEnd\<close> and \<^verbatim>\<open>vestingEnd\<close>,
  where the addition of doubles is then exact.
\<close>

definition safe_times :: "VestingSchedule \<Rightarrow> bool" where
  "safe_times s \<longleftrightarrow>
     js_safe (startTime s) \<and> js_safe (cliffDuration s) \<and> js_safe (vestingDuration s) \<and>
     js_safe (startTime s + cliffDuration s) \<and> js_safe (startTime s + vestingDuration s)"

subsection \<open>Decimal strings\<close>

















section \<open>The on-chain program, from the Rust excerpts of the tutorial\<close>

text \<open>
  The Rust sources of the program are quoted in the tutorial that follows the test suite
  in \<^verbatim>\<open>tests/token-vesting.ts\<close>: the constants, the account struct, the whole of
  \<^verbatim>\<open>calculate_vested_amount\<close>, and parts of the \<^verbatim>\<open>create_vesting\<close> and
  \<^verbatim>\<open>revoke\<close> handlers. \<^verbatim>\<open>u64\<close> and \<^verbatim>\<open>i64\<close> are 64-bit words, read with
  \<^const>\<open>unat\<close> and \<^const>\<open>sint\<close>; \<^verbatim>\<open>u128\<close> is a 128-bit word. A \<^verbatim>\<open>Pubkey\<close>
  is its base58 string. The fields \<^verbatim>\<open>admin\<close>, \<^verbatim>\<open>beneficiary\<close>, \<^verbatim>\<open>mint\<close> and
  \<^verbatim>\<open>bump\<close> of the account carry a suffix here, since the front-end record above has
  fields of the same names. The token transfers and the events of the handlers belong
  to the token program and the runtime and are not part of the model.
\<close>

type_synonym u64 = "64 word"
type_synonym i64 = "64 word"
type_synonym u128 = "128 word"
type_synonym Pubkey = string

definition MIN_VESTING_DURATION :: i64 where
  "MIN_VESTING_DURATION = 86400"

definition MAX_VESTING_DURATION :: i64 where
  "MAX_VESTING_DURATION = 315360000"

definition MAX_CLIFF_PERCENTAGE :: u64 where
  "MAX_CLIFF_PERCENTAGE = 50"

text \<open>
  The error enum. The excerpts name \<^verbatim>\<open>InvalidAmount\<close>, \<^verbatim>\<open>DurationTooShort\<close>,
  \<^verbatim>\<open>DurationTooLong\<close>, \<^verbatim>\<open>CliffPercentageTooHigh\<close>, \<^verbatim>\<open>StartTimeInPast\<close>,
  \<^verbatim>\<open>CalculationOverflow\<close>, \<^verbatim>\<open>VestingRevoked\<close> and \<^verbatim>\<open>VestingCompleted\<close>, and the
  test suite expects \<^verbatim>\<open>CliffNotReached\<close>; the enum of the excerpt ends in
  \<^verbatim>\<open>// ... more errors\<close>. \<^verbatim>\<open>InvalidCliff\<close>, \<^verbatim>\<open>NothingToClaim\<close> and
  \<^verbatim>\<open>AlreadyRevoked\<close> are kinds of the specification's error list that no source file
  names.
\<close>

datatype VestingError =
    InvalidAmount | DurationTooShort | DurationTooLong | InvalidCliff
  | CliffPercentageTooHigh | StartTimeInPast | CalculationOverflow | CliffNotReached
  | NothingToClaim | VestingRevoked | AlreadyRevoked | VestingCompleted

record VestingScheduleAccount =
  admin_pubkey :: Pubkey
  beneficiary_pubkey :: Pubkey
  mint_pubkey :: Pubkey
  total_amount :: u64
  claimed_amount :: u64
  start_time :: i64
  cliff_duration :: i64
  vesting_duration :: i64
  is_revoked :: bool
  revoked_amount :: u64
  bump_seed :: "8 word"
  vault_bump :: "8 word"

text \<open>A mathematical integer is in the range of \<^verbatim>\<open>i64\<close>.\<close>

definition fits_i64 :: "int \<Rightarrow> bool" where
  "fits_i64 r \<longleftrightarrow> - (2 ^ 63) \<le> r \<and> r < 2 ^ 63"

definition checked_add_i64 :: "i64 \<Rightarrow> i64 \<Rightarrow> i64 option" where
  "checked_add_i64 a b = (if fits_i64 (sint a + sint b) then Some (a + b) else None)"

definition checked_mul :: "'a::len word \<Rightarrow> 'a word \<Rightarrow> 'a word option" where
  "checked_mul a b = (if unat a * unat b < 2 ^ LENGTH('a) then Some (a * b) else None)"

definition checked_div :: "'a::len word \<Rightarrow> 'a word \<Rightarrow> 'a word option" where
  "checked_div a b = (if b = 0 then None else Some (a div b))"

definition checked_sub :: "'a::len word \<Rightarrow> 'a word \<Rightarrow> 'a word option" where
  "checked_sub a b = (if b \<le> a then Some (a - b) else None)"

definition saturating_sub :: "'a::len word \<Rightarrow> 'a word \<Rightarrow> 'a word" where
  "saturating_sub a b = (if b \<le> a then a - b else 0)"

text \<open>
  \<^verbatim>\<open>VestingSchedule::calculate_vested_amount\<close>. The subtraction
  \<^verbatim>\<open>current_time - self.start_time\<close> is the subtraction of words; lemma
  \<open>elapsed_exact\<close> below shows that it cannot leave the range of \<^verbatim>\<open>i64\<close> where it is
  reached, so a build that panics on overflow and one that wraps agree. The casts
  \<^verbatim>\<open>as u128\<close> extend the sign of an \<^verbatim>\<open>i64\<close> and the zeros of a \<^verbatim>\<open>u64\<close>;
  \<^verbatim>\<open>as u64\<close> truncates.
\<close>

definition calculate_vested_amount :: "VestingScheduleAccount \<Rightarrow> i64 \<Rightarrow> VestingError + u64" where
  "calculate_vested_amount self current_time =
     (if is_revoked self then Inr (saturating_sub (total_amount self) (revoked_amount self))
      else case checked_add_i64 (start_time self) (cliff_duration self) of
        None \<Rightarrow> Inl CalculationOverflow
      | Some cliff_end \<Rightarrow>
          if sint current_time < sint cliff_end then Inr 0
          else (case checked_add_i64 (start_time self) (vesting_duration self) of
            None \<Rightarrow> Inl CalculationOverflow
          | Some vesting_end \<Rightarrow>
              if sint current_time \<ge> sint vesting_end then Inr (total_amount self)
              else (let elapsed = (scast (current_time - start_time self) :: u128);
                        duration = (scast (vesting_duration self) :: u128);
                        total = (ucast (total_amount self) :: u128)
                    in case checked_mul total elapsed of
                         None \<Rightarrow> Inl CalculationOverflow
                       | Some product \<Rightarrow>
                           (case checked_div product duration of
                              None \<Rightarrow> Inl CalculationOverflow
                            | Some vested \<Rightarrow> Inr (ucast vested)))))"

subsection \<open>The create handler\<close>

text \<open>The accounts of the instruction, as far as the new schedule reads them.\<close>

record CreateVestingSchedule =
  ctx_admin :: Pubkey
  ctx_beneficiary :: Pubkey
  ctx_mint :: Pubkey
  ctx_bump :: "8 word"
  ctx_vault_bump :: "8 word"

text \<open>
  Modelled from the spec: the check against \<^verbatim>\<open>MAX_VESTING_DURATION\<close> that raises
  \<^verbatim>\<open>DurationTooLong\<close>. The excerpt of \<^verbatim>\<open>create_vesting.rs\<close> shows the constant and
  the error but not the \<^verbatim>\<open>require!\<close>; section 4.1 of the specification has it as the
  third check, \<open>vestingDuration \<le> MAX_VESTING_DURATION\<close>.
\<close>

definition duration_within_max :: "i64 \<Rightarrow> bool" where
  "duration_within_max vesting_duration' \<longleftrightarrow>
     sint vesting_duration' \<le> sint MAX_VESTING_DURATION"

text \<open>
  Modelled from the spec: the check that raises \<^verbatim>\<open>InvalidCliff\<close>, which no source
  file shows; section 4.1 of the specification has it as the fourth check,
  \<open>cliffDuration \<le> vestingDuration\<close>.
\<close>

definition cliff_within_duration :: "i64 \<Rightarrow> i64 \<Rightarrow> bool" where
  "cliff_within_duration cliff_duration' vesting_duration' \<longleftrightarrow>
     sint cliff_duration' \<le> sint vesting_duration'"

text \<open>
  Modelled from the spec: the initial values of the account, which the excerpt
  abbreviates to \<^verbatim>\<open>// ... set all fields\<close>; section 4.1 of the specification gives
  \<open>claimedAmount = 0\<close>, \<open>isRevoked = false\<close> and \<open>revokedAmount = 0\<close>, and
  the arguments for the other fields.
\<close>

definition new_schedule ::
  "CreateVestingSchedule \<Rightarrow> u64 \<Rightarrow> i64 \<Rightarrow> i64 \<Rightarrow> i64 \<Rightarrow> VestingScheduleAccount" where
  "new_schedule ctx total_amount' start_time' cliff_duration' vesting_duration' =
     \<lparr>admin_pubkey = ctx_admin ctx, beneficiary_pubkey = ctx_beneficiary ctx,
      mint_pubkey = ctx_mint ctx, total_amount = total_amount', claimed_amount = 0,
      start_time = start_time', cliff_duration = cliff_duration',
      vesting_duration = vesting_duration', is_revoked = False, revoked_amount = 0,
      bump_seed = ctx_bump ctx, vault_bump = ctx_vault_bump ctx\<rparr>"

text \<open>
  The handler of \<^verbatim>\<open>create_vesting.rs\<close>, with the clock's \<^verbatim>\<open>unix_timestamp\<close> as an
  argument. \<^verbatim>\<open>cliff_duration as u64\<close> and \<^verbatim>\<open>vesting_duration as u64\<close> read the same
  64 bits as unsigned.
\<close>

definition create_vesting_handler ::
  "CreateVestingSchedule \<Rightarrow> u64 \<Rightarrow> i64 \<Rightarrow> i64 \<Rightarrow> i64 \<Rightarrow> i64
     \<Rightarrow> VestingError + VestingScheduleAccount" where
  "create_vesting_handler ctx total_amount' start_time' cliff_duration' vesting_duration'
       unix_timestamp =
     (if \<not> total_amount' > 0 then Inl InvalidAmount
      else if \<not> sint vesting_duration' \<ge> sint MIN_VESTING_DURATION then Inl DurationTooShort
      else if \<not> duration_within_max vesting_duration' then Inl DurationTooLong
      else if \<not> cliff_within_duration cliff_duration' vesting_duration' then Inl InvalidCliff
      else case checked_mul cliff_duration' 100 of
        None \<Rightarrow> Inl CalculationOverflow
      | Some scaled \<Rightarrow>
          (case checked_div scaled vesting_duration' of
             None \<Rightarrow> Inl CalculationOverflow
           | Some cliff_percentage \<Rightarrow>
               if \<not> cliff_percentage \<le> MAX_CLIFF_PERCENTAGE then Inl CliffPercentageTooHigh
               else if \<not> sint start_time' > sint unix_timestamp then Inl StartTimeInPast
               else Inr (new_schedule ctx total_amount' start_time' cliff_duration'
                           vesting_duration')))"

subsection \<open>The revoke handler\<close>

text \<open>
  Modelled from the spec: \<^verbatim>\<open>VestingSchedule::is_fully_vested\<close>, which the handler calls
  and no source file defines; section 4.4 of the specification refuses the revocation
  with \<^verbatim>\<open>VestingCompleted\<close> if \<open>vestedAmount(schedule, now) == schedule.totalAmount\<close>.
\<close>

definition is_fully_vested :: "VestingScheduleAccount \<Rightarrow> i64 \<Rightarrow> bool" where
  "is_fully_vested self current_time \<longleftrightarrow>
     calculate_vested_amount self current_time = Inr (total_amount self)"

text \<open>
  Modelled from the spec: \<^verbatim>\<open>VestingSchedule::calculate_unvested_amount\<close>, which the
  handler calls and no source file defines; section 4.4 of the specification gives
  \<open>unvested = totalAmount - vestedAmount(schedule, now)\<close> with a checked subtraction.
\<close>

definition calculate_unvested_amount :: "VestingScheduleAccount \<Rightarrow> i64 \<Rightarrow> VestingError + u64" where
  "calculate_unvested_amount self current_time =
     (case calculate_vested_amount self current_time of
        Inl e \<Rightarrow> Inl e
      | Inr vested \<Rightarrow>
          (case checked_sub (total_amount self) vested of
             None \<Rightarrow> Inl CalculationOverflow
           | Some unvested \<Rightarrow> Inr unvested))"

text \<open>
  The handler of \<^verbatim>\<open>revoke.rs\<close>: the amount that goes back to the admin and the
  account as the handler leaves it.
\<close>

definition revoke_handler ::
  "VestingScheduleAccount \<Rightarrow> i64 \<Rightarrow> VestingError + (u64 \<times> VestingScheduleAccount)" where
  "revoke_handler vesting_schedule unix_timestamp =
     (if \<not> \<not> is_revoked vesting_schedule then Inl VestingRevoked
      else if \<not> \<not> is_fully_vested vesting_schedule unix_timestamp then Inl VestingCompleted
      else case calculate_unvested_amount vesting_schedule unix_timestamp of
        Inl e \<Rightarrow> Inl e
      | Inr unvested \<Rightarrow>
          Inr (unvested, vesting_schedule\<lparr>is_revoked := True, revoked_amount := unvested\<rparr>))"

section \<open>From the account to the front end\<close>


section \<open>Example schedules\<close>

text \<open>Scenario A of the specification, for a start time \<open>T\<close>, as the front end sees it.\<close>

definition scenario_A :: "int \<Rightarrow> VestingSchedule" where
  "scenario_A T =
     \<lparr>admin = ''admin'', beneficiary = ''beneficiary'', mint = ''mint'',
      totalAmount = 1000, claimedAmount = 0, startTime = T, cliffDuration = 100,
      vestingDuration = 1000, isRevoked = False, revokedAmount = 0, bump = 255,
      vaultBump = 254\<rparr>"

text \<open>The same schedule as an account of the program.\<close>

definition scenario_A_account :: "i64 \<Rightarrow> VestingScheduleAccount" where
  "scenario_A_account T =
     \<lparr>admin_pubkey = ''admin'', beneficiary_pubkey = ''beneficiary'', mint_pubkey = ''mint'',
      total_amount = 1000, claimed_amount = 0, start_time = T, cliff_duration = 100,
      vesting_duration = 1000, is_revoked = False, revoked_amount = 0, bump_seed = 255,
      vault_bump = 254\<rparr>"

definition example_ctx :: CreateVestingSchedule where
  "example_ctx =
     \<lparr>ctx_admin = ''admin'', ctx_beneficiary = ''beneficiary'', ctx_mint = ''mint'',
      ctx_bump = 255, ctx_vault_bump = 254\<rparr>"

text \<open>
  A schedule that starts ten seconds before the largest \<^verbatim>\<open>i64\<close>: its cliff end
  is in range, its vesting end is not.
\<close>

definition late_start :: VestingScheduleAccount where
  "late_start =
     \<lparr>admin_pubkey = ''admin'', beneficiary_pubkey = ''beneficiary'', mint_pubkey = ''mint'',
      total_amount = 1000, claimed_amount = 0, start_time = 9223372036854775797,
      cliff_duration = 5, vesting_duration = 100, is_revoked = False, revoked_amount = 0,
      bump_seed = 255, vault_bump = 254\<rparr>"

section \<open>Properties of the front-end helpers\<close>

subsection \<open>Truncating division on non-negative operands\<close>

lemma sdiv_nonneg: "0 \<le> a \<Longrightarrow> 0 < b \<Longrightarrow> a sdiv b = a div (b::int)"
  by (simp add: signed_divide_int_def sgn_if)


lemma sdiv_le_total:
  assumes "0 \<le> (a::int)" "0 < d" "e < d"
  shows "(a * e) sdiv d \<le> a"
proof (cases "0 \<le> e")
  case True
  then have "(a * e) sdiv d = (a * e) div d"
    using assms by (simp add: sdiv_nonneg)
  also have "\<dots> \<le> (a * d) div d"
    using assms True by (intro zdiv_mono1 mult_left_mono) simp_all
  also have "\<dots> = a" using assms by simp
  finally show ?thesis .
next
  case False
  then have "a * e \<le> 0" using assms by (simp add: mult_nonneg_nonpos)
  then have "(a * e) sdiv d \<le> 0"
    using assms by (simp add: signed_divide_int_def sgn_if pos_imp_zdiv_nonneg_iff)
  then show ?thesis using assms by simp
qed

lemma sdiv_mono_elapsed:
  assumes "0 \<le> (a::int)" "0 < d" "0 \<le> e1" "e1 \<le> e2"
  shows "(a * e1) sdiv d \<le> (a * e2) sdiv d"
proof -
  have "(a * e1) div d \<le> (a * e2) div d"
    using assms by (intro zdiv_mono1 mult_left_mono) simp_all
  then show ?thesis using assms by (simp add: sdiv_nonneg)
qed

lemma sdiv_nonneg_result:
  assumes "0 \<le> (a::int)" "0 < d" "0 \<le> e"
  shows "0 \<le> (a * e) sdiv d"
  using assms by (simp add: sdiv_nonneg pos_imp_zdiv_nonneg_iff)

subsection \<open>The vested amount\<close>

text \<open>
  What \<^const>\<open>calculateVestedAmount\<close> does with a schedule that is not revoked and whose
  time fields pass \<^verbatim>\<open>toNumber()\<close>.
\<close>

lemma vested_not_revoked:
  assumes "\<not> isRevoked s" "js_safe (startTime s)" "js_safe (cliffDuration s)"
    "js_safe (vestingDuration s)"
  shows "calculateVestedAmount s now =
     (if now < startTime s + cliffDuration s then Inr 0
      else if startTime s + vestingDuration s \<le> now then Inr (totalAmount s)
      else if \<not> js_safe (now - startTime s) then Inl NumberTooLarge
      else bn_div (totalAmount s * (now - startTime s)) (vestingDuration s))"
  using assms
  by (simp add: calculateVestedAmount_def bn_toNumber_def bn_of_number_def Let_def)

lemma vested_revoked:
  "isRevoked s \<Longrightarrow> calculateVestedAmount s now = Inr (totalAmount s - revokedAmount s)"
  by (simp add: calculateVestedAmount_def)

text \<open>Between the cliff end and the vesting end the elapsed time is a safe integer.\<close>

lemma elapsed_safe:
  assumes "js_safe c" "js_safe d" "c \<le> e" "e < d"
  shows "js_safe e"
  using assms by (simp add: js_safe_def)

text \<open>Scenario A for every start time that keeps the vesting end a safe integer.\<close>

lemma scenario_A_vested:
  assumes "js_safe T" "js_safe (T + 1000)"
  shows "calculateVestedAmount (scenario_A T) (T + 50) = Inr 0"
    and "calculateVestedAmount (scenario_A T) (T + 100) = Inr 100"
    and "calculateVestedAmount (scenario_A T) (T + 500) = Inr 500"
    and "calculateVestedAmount (scenario_A T) (T + 1000) = Inr 1000"
  using assms
  by (simp_all add: calculateVestedAmount_def scenario_A_def bn_toNumber_def bn_of_number_def
      bn_div_def js_safe_def Let_def)

text \<open>
  Claim C1. For a schedule that is not revoked, \<^const>\<open>calculateVestedAmount\<close> returns the
  piecewise function of the specification: 0 before \<open>startTime + cliffDuration\<close>,
  \<open>totalAmount\<close> from \<open>startTime + vestingDuration\<close> on, and in between
  \<open>totalAmount * (now - startTime)\<close> divided by \<open>vestingDuration\<close>, where the
  truncating division of bn.js is the floor because nothing is negative. The schedule
  has the fields of the data model (an unsigned \<open>totalAmount\<close>, \<open>cliffDuration \<ge> 0\<close>,
  \<open>vestingDuration > 0\<close>), and its times are safe integers, which is what
  \<^verbatim>\<open>toNumber()\<close> asks of them. The witness is Scenario A at the start time
  1700000000: 0 at \<open>T + 50\<close>, 100 at \<open>T + 100\<close>, 500 at \<open>T + 500\<close>, 1000 at
  \<open>T + 1000\<close>.
\<close>

theorem calculateVestedAmount_piecewise:
  assumes "\<not> isRevoked s" and "safe_times s"
    and "0 \<le> totalAmount s" and "0 \<le> cliffDuration s" and "0 < vestingDuration s"
  shows "calculateVestedAmount s now =
     Inr (if now < startTime s + cliffDuration s then 0
          else if startTime s + vestingDuration s \<le> now then totalAmount s
          else (totalAmount s * (now - startTime s)) div vestingDuration s)"
proof -
  have safe: "js_safe (startTime s)" "js_safe (cliffDuration s)" "js_safe (vestingDuration s)"
    using assms(2) by (simp_all add: safe_times_def)
  note eq = vested_not_revoked [OF assms(1) safe, of now]
  show ?thesis
  proof (cases "now < startTime s + cliffDuration s")
    case True
    then show ?thesis using eq by simp
  next
    case cliff: False
    show ?thesis
    proof (cases "startTime s + vestingDuration s \<le> now")
      case True
      then show ?thesis using eq cliff by simp
    next
      case False
      have lo: "cliffDuration s \<le> now - startTime s" using cliff by simp
      have hi: "now - startTime s < vestingDuration s" using False by simp
      have "js_safe (now - startTime s)"
        using elapsed_safe [OF safe(2) safe(3) lo hi] .
      moreover have "0 \<le> totalAmount s * (now - startTime s)"
        using assms(3,4) lo by simp
      ultimately show ?thesis
        using eq cliff False assms(5) by (simp add: bn_div_def sdiv_nonneg)
    qed
  qed
qed

theorem calculateVestedAmount_piecewise_witness:
  "calculateVestedAmount (scenario_A 1700000000) 1700000050 = Inr 0
   \<and> calculateVestedAmount (scenario_A 1700000000) 1700000100 = Inr 100
   \<and> calculateVestedAmount (scenario_A 1700000000) 1700000500 = Inr 500
   \<and> calculateVestedAmount (scenario_A 1700000000) 1700001000 = Inr 1000"
proof -
  have a: "\<not> isRevoked (scenario_A 1700000000)"
    by (simp add: scenario_A_def)
  have b: "safe_times (scenario_A 1700000000)"
    by (simp add: scenario_A_def safe_times_def js_safe_def)
  have c: "0 \<le> totalAmount (scenario_A 1700000000)"
    by (simp add: scenario_A_def)
  have d: "0 \<le> cliffDuration (scenario_A 1700000000)"
    by (simp add: scenario_A_def)
  have e: "0 < vestingDuration (scenario_A 1700000000)"
    by (simp add: scenario_A_def)
  note t = calculateVestedAmount_piecewise [OF a b c d e]
  show ?thesis
    using t [of 1700000050] t [of 1700000100] t [of 1700000500] t [of 1700001000]
    by (simp add: scenario_A_def)
qed

subsection \<open>The claimable amount\<close>

text \<open>
  Claim C2. \<^const>\<open>calculateClaimableAmount\<close> is the larger of 0 and the vested amount
  less \<open>claimedAmount\<close>, for every schedule and time; an exception of the vested
  amount's computation passes through. So a value it returns is never negative, also
  when \<open>claimedAmount\<close> exceeds the vested amount: the witness has claimed 700 of
  Scenario A at \<open>T + 500\<close>, where 500 are vested, and the claimable amount is 0.
\<close>

theorem calculateClaimableAmount_max:
  "calculateClaimableAmount s now =
     (case calculateVestedAmount s now of
        Inl e \<Rightarrow> Inl e
      | Inr vested \<Rightarrow> Inr (max 0 (vested - claimedAmount s)))
   \<and> (\<forall>c. calculateClaimableAmount s now = Inr c \<longrightarrow> 0 \<le> c)"
  by (auto simp: calculateClaimableAmount_def Let_def max_def split: sum.splits)

theorem calculateClaimableAmount_max_witness:
  "calculateVestedAmount ((scenario_A 1700000000)\<lparr>claimedAmount := 700\<rparr>) 1700000500 = Inr 500
   \<and> calculateClaimableAmount ((scenario_A 1700000000)\<lparr>claimedAmount := 700\<rparr>) 1700000500
       = Inr 0"
  using calculateClaimableAmount_max
    [of "(scenario_A 1700000000)\<lparr>claimedAmount := 700\<rparr>" 1700000500]
  by (simp add: calculateVestedAmount_def scenario_A_def bn_toNumber_def bn_of_number_def
      bn_div_def js_safe_def Let_def)

text \<open>
  Claim C8. For a schedule with unsigned amounts and \<open>vestingDuration > 0\<close> that is
  revoked or has safe times, \<^const>\<open>calculateVestedAmount\<close> returns a value at every
  time and the value is at most \<open>totalAmount\<close>. The witness is Scenario A at
  \<open>T + 500\<close>.
\<close>

theorem vested_at_most_total:
  assumes "0 \<le> totalAmount s" and "0 \<le> revokedAmount s" and "0 < vestingDuration s"
    and "isRevoked s \<or> safe_times s"
  shows "\<exists>v. calculateVestedAmount s t = Inr v \<and> v \<le> totalAmount s"
proof (cases "isRevoked s")
  case True
  then show ?thesis using assms(2) by (simp add: vested_revoked)
next
  case False
  then have st: "safe_times s" using assms(4) by simp
  have safe: "js_safe (startTime s)" "js_safe (cliffDuration s)"
    "js_safe (vestingDuration s)"
    using st by (simp_all add: safe_times_def)
  have "js_safe (t - startTime s)"
    if "\<not> t < startTime s + cliffDuration s" "\<not> startTime s + vestingDuration s \<le> t"
    using that safe by (simp add: js_safe_def)
  then show ?thesis
    using vested_not_revoked [OF False safe, of t] assms(1,3)
      sdiv_le_total [of "totalAmount s" "vestingDuration s" "t - startTime s"]
    by (auto simp: bn_div_def)
qed

theorem vested_at_most_total_witness:
  "calculateVestedAmount (scenario_A 1700000000) 1700000500 = Inr 500
   \<and> (500::int) \<le> totalAmount (scenario_A 1700000000)"
proof -
  have "0 \<le> totalAmount (scenario_A 1700000000)"
    and "0 \<le> revokedAmount (scenario_A 1700000000)"
    and "0 < vestingDuration (scenario_A 1700000000)"
    and "isRevoked (scenario_A 1700000000) \<or> safe_times (scenario_A 1700000000)"
    by (simp_all add: scenario_A_def safe_times_def js_safe_def)
  from vested_at_most_total [OF this, of 1700000500] show ?thesis
    by (simp add: calculateVestedAmount_def scenario_A_def bn_toNumber_def bn_of_number_def
        bn_div_def js_safe_def Let_def)
qed

text \<open>
  Claim C9. For a schedule of the data model that is not revoked (unsigned
  \<open>totalAmount\<close>, \<open>cliffDuration \<ge> 0\<close>, \<open>vestingDuration > 0\<close>, times that are safe
  integers), \<^const>\<open>calculateVestedAmount\<close> returns a value at every time and the value
  does not decrease as the time grows; for a revoked schedule the result is the same at
  every time. The witness is Scenario A at \<open>T + 100\<close> and \<open>T + 500\<close>.
\<close>

theorem vested_monotone:
  "(\<not> isRevoked s \<and> safe_times s \<and> 0 \<le> totalAmount s \<and> 0 \<le> cliffDuration s
      \<and> 0 < vestingDuration s \<and> t1 \<le> t2 \<longrightarrow>
      (\<exists>v1 v2. calculateVestedAmount s t1 = Inr v1 \<and> calculateVestedAmount s t2 = Inr v2
         \<and> v1 \<le> v2))
   \<and> (isRevoked s \<longrightarrow> calculateVestedAmount s t1 = calculateVestedAmount s t2)"
proof (intro conjI impI)
  assume "isRevoked s"
  then show "calculateVestedAmount s t1 = calculateVestedAmount s t2"
    by (simp add: vested_revoked)
next
  assume a: "\<not> isRevoked s \<and> safe_times s \<and> 0 \<le> totalAmount s \<and> 0 \<le> cliffDuration s
      \<and> 0 < vestingDuration s \<and> t1 \<le> t2"
  then have safe: "js_safe (startTime s)" "js_safe (cliffDuration s)"
    "js_safe (vestingDuration s)"
    by (simp_all add: safe_times_def)
  have nr: "\<not> isRevoked s" using a by simp
  have el: "js_safe (t - startTime s)"
    if "\<not> t < startTime s + cliffDuration s" "\<not> startTime s + vestingDuration s \<le> t" for t
    using that safe by (simp add: js_safe_def)
  note e1 = vested_not_revoked [OF nr safe, of t1]
  note e2 = vested_not_revoked [OF nr safe, of t2]
  show "\<exists>v1 v2. calculateVestedAmount s t1 = Inr v1 \<and> calculateVestedAmount s t2 = Inr v2
         \<and> v1 \<le> v2"
    using a e1 e2 el [of t1] el [of t2]
      sdiv_mono_elapsed [of "totalAmount s" "vestingDuration s" "t1 - startTime s"
        "t2 - startTime s"]
      sdiv_nonneg_result [of "totalAmount s" "vestingDuration s" "t2 - startTime s"]
      sdiv_le_total [of "totalAmount s" "vestingDuration s" "t1 - startTime s"]
    by (auto simp: bn_div_def)
qed

theorem vested_monotone_witness:
  "calculateVestedAmount (scenario_A 1700000000) 1700000100 = Inr 100
   \<and> calculateVestedAmount (scenario_A 1700000000) 1700000500 = Inr 500
   \<and> (100::int) \<le> 500"
  using vested_monotone [of "scenario_A 1700000000" 1700000100 1700000500]
  by (simp add: calculateVestedAmount_def scenario_A_def bn_toNumber_def bn_of_number_def
      bn_div_def js_safe_def Let_def)

subsection \<open>Formatting and parsing token amounts\<close>





























section \<open>Properties of the on-chain program\<close>

subsection \<open>Words and their values\<close>

lemma sint_MIN: "sint MIN_VESTING_DURATION = 86400"
  by (simp add: MIN_VESTING_DURATION_def)

lemma sint_MAX: "sint MAX_VESTING_DURATION = 315360000"
  by (simp add: MAX_VESTING_DURATION_def)

lemma sint_add_exact:
  assumes "fits_i64 (sint (a::i64) + sint (b::i64))"
  shows "sint (a + b) = sint a + sint b"
  using assms by (simp add: fits_i64_def sint_word_ariths signed_take_bit_int_eq_self)

lemma sint_sub_exact:
  assumes "fits_i64 (sint (a::i64) - sint (b::i64))"
  shows "sint (a - b) = sint a - sint b"
  using assms by (simp add: fits_i64_def sint_word_ariths signed_take_bit_int_eq_self)

lemma unat_scast_nonneg:
  assumes "0 \<le> sint (e::i64)"
  shows "unat (scast e :: u128) = nat (sint e)"
proof -
  have "sint e < 2 ^ 63" using sint_lt [of e] by simp
  then have lt: "sint e < 2 ^ 128" by simp
  have "(scast e :: u128) = word_of_int (sint e)" by (rule scast_eq)
  then have "uint (scast e :: u128) = sint e mod 2 ^ 128"
    by (simp only: uint_word_of_int) simp
  then have "uint (scast e :: u128) = sint e" using assms lt by simp
  then have "nat (uint (scast e :: u128)) = nat (sint e)" by (rule arg_cong)
  then show ?thesis by simp
qed

lemma unat_ucast_up: "unat (ucast (a::u64) :: u128) = unat a"
  by (simp add: unsigned_ucast_eq take_bit_nat_eq_self unsigned_less [of a, THEN less_trans])

lemma checked_mul_100:
  "checked_mul (c::u64) 100 = (if unat c * 100 < 2 ^ 64 then Some (c * 100) else None)"
  by (simp add: checked_mul_def)

lemma unat_mul_100: "unat (c::u64) * 100 < 2 ^ 64 \<Longrightarrow> unat (c * 100) = unat c * 100"
  by (simp add: unat_word_ariths)

lemma percentage_le:
  assumes "unat (c::u64) * 100 < 2 ^ 64"
  shows "(c * 100) div d \<le> MAX_CLIFF_PERCENTAGE \<longleftrightarrow> unat c * 100 div unat d \<le> 50"
  using assms by (simp add: word_le_nat_alt unat_div unat_mul_100 MAX_CLIFF_PERCENTAGE_def)

lemma long_enough_nonzero: "86400 \<le> sint (d::i64) \<Longrightarrow> d \<noteq> 0"
  by auto

subsection \<open>The vested amount on chain\<close>

text \<open>
  The steps of \<^const>\<open>calculate_vested_amount\<close> for a schedule that is not revoked, with
  the two sums as integers.
\<close>

lemma vested_active:
  assumes "\<not> is_revoked s"
  shows "calculate_vested_amount s now =
     (if \<not> fits_i64 (sint (start_time s) + sint (cliff_duration s)) then Inl CalculationOverflow
      else if sint now < sint (start_time s) + sint (cliff_duration s) then Inr 0
      else if \<not> fits_i64 (sint (start_time s) + sint (vesting_duration s))
        then Inl CalculationOverflow
      else if sint (start_time s) + sint (vesting_duration s) \<le> sint now
        then Inr (total_amount s)
      else (case checked_mul (ucast (total_amount s) :: u128) (scast (now - start_time s)) of
              None \<Rightarrow> Inl CalculationOverflow
            | Some product \<Rightarrow>
                (case checked_div product (scast (vesting_duration s)) of
                   None \<Rightarrow> Inl CalculationOverflow
                 | Some vested \<Rightarrow> Inr (ucast vested))))"
  using assms
  by (simp add: calculate_vested_amount_def checked_add_i64_def sint_add_exact Let_def)

text \<open>
  Where the subtraction \<^verbatim>\<open>current_time - self.start_time\<close> is reached, the difference
  lies between the cliff and the vesting duration and is the difference of the integers.
\<close>

lemma elapsed_exact:
  assumes "fits_i64 (sint (start_time s) + sint (cliff_duration s))"
    and "fits_i64 (sint (start_time s) + sint (vesting_duration s))"
    and "sint (start_time s) + sint (cliff_duration s) \<le> sint now"
    and "sint now < sint (start_time s) + sint (vesting_duration s)"
  shows "sint (now - start_time s) = sint now - sint (start_time s)"
proof -
  have "fits_i64 (sint now - sint (start_time s))"
    using assms(3,4) sint_ge [of "cliff_duration s"] sint_lt [of "vesting_duration s"]
    by (simp add: fits_i64_def)
  then show ?thesis by (rule sint_sub_exact)
qed

text \<open>
  The interpolation on 128 bits, for an elapsed time that is not negative and below the
  duration: the product fits, the divisor is not zero, and the quotient fits 64 bits.
\<close>

lemma interpolation_value:
  fixes amount :: u64 and e d :: i64
  assumes "0 \<le> sint e" and "sint e < sint d"
  shows "\<exists>product vested. checked_mul (ucast amount :: u128) (scast e) = Some product
     \<and> checked_div product (scast d) = Some vested
     \<and> unat (ucast vested :: u64) = unat amount * nat (sint e) div nat (sint d)"
proof -
  let ?a = "ucast amount :: u128" and ?e = "scast e :: u128" and ?d = "scast d :: u128"
  have ue: "unat ?e = nat (sint e)" using assms(1) by (rule unat_scast_nonneg)
  have ud: "unat ?d = nat (sint d)" using assms by (intro unat_scast_nonneg) simp
  have ua: "unat ?a = unat amount" by (rule unat_ucast_up)
  have a_lt: "unat amount < 2 ^ 64"
    using unsigned_less [of amount, where ?'a = nat] by simp
  have e_lt: "nat (sint e) < 2 ^ 63" using sint_lt [of e] assms(1) by simp
  have "unat amount * nat (sint e) < 2 ^ 64 * 2 ^ 63"
    using a_lt e_lt by (intro mult_strict_mono) simp_all
  then have fits: "unat ?a * unat ?e < 2 ^ 128" by (simp add: ua ue)
  then have mul: "checked_mul ?a ?e = Some (?a * ?e)" by (simp add: checked_mul_def)
  have up: "unat (?a * ?e) = unat amount * nat (sint e)"
    using fits by (simp add: unat_word_ariths ua ue)
  have dnz: "?d \<noteq> 0" using ud assms by auto
  then have dv: "checked_div (?a * ?e) ?d = Some ((?a * ?e) div ?d)"
    by (simp add: checked_div_def)
  have q: "unat ((?a * ?e) div ?d) = unat amount * nat (sint e) div nat (sint d)"
    by (simp add: unat_div up ud)
  have "unat amount * nat (sint e) div nat (sint d)
      \<le> unat amount * nat (sint d) div nat (sint d)"
    using assms by (intro div_le_mono mult_le_mono2) simp
  also have "\<dots> = unat amount" using assms by simp
  finally have "unat ((?a * ?e) div ?d) < 2 ^ 64" using a_lt q by simp
  then have "unat (ucast ((?a * ?e) div ?d) :: u64) = unat ((?a * ?e) div ?d)"
    by (simp add: unsigned_ucast_eq take_bit_nat_eq_self)
  then show ?thesis using mul dv q by simp
qed

lemma interpolation_le:
  fixes amount :: u64 and e d :: i64
  assumes "0 \<le> sint e" and "sint e < sint d"
    and "checked_mul (ucast amount :: u128) (scast e) = Some product"
    and "checked_div product (scast d) = Some vested"
  shows "(ucast vested :: u64) \<le> amount"
proof -
  obtain p q where "checked_mul (ucast amount :: u128) (scast e) = Some p"
    and "checked_div p (scast d) = Some q"
    and q: "unat (ucast q :: u64) = unat amount * nat (sint e) div nat (sint d)"
    using interpolation_value [OF assms(1,2), of amount] by blast
  then have eq: "q = vested" using assms(3,4) by simp
  have "unat amount * nat (sint e) div nat (sint d)
      \<le> unat amount * nat (sint d) div nat (sint d)"
    using assms by (intro div_le_mono mult_le_mono2) simp
  also have "\<dots> = unat amount" using assms by simp
  finally show ?thesis using q eq by (simp add: word_le_nat_alt)
qed

text \<open>
  With a cliff that is not negative, a vested amount the program returns is at most the
  total amount.
\<close>

lemma vested_le_total_onchain:
  assumes "0 \<le> sint (cliff_duration s)" and "calculate_vested_amount s now = Inr v"
  shows "v \<le> total_amount s"
proof (cases "is_revoked s")
  case True
  then have "v = saturating_sub (total_amount s) (revoked_amount s)"
    using assms(2) by (simp add: calculate_vested_amount_def)
  then show ?thesis
    by (simp add: saturating_sub_def word_le_nat_alt unat_sub)
next
  case False
  note eq = vested_active [OF False, of now]
  show ?thesis
  proof (cases "fits_i64 (sint (start_time s) + sint (cliff_duration s))
      \<and> \<not> sint now < sint (start_time s) + sint (cliff_duration s)
      \<and> fits_i64 (sint (start_time s) + sint (vesting_duration s))
      \<and> \<not> sint (start_time s) + sint (vesting_duration s) \<le> sint now")
    case False
    then show ?thesis using eq assms(2) by (auto split: if_splits)
  next
    case True
    have el: "sint (now - start_time s) = sint now - sint (start_time s)"
      using True by (intro elapsed_exact) simp_all
    have e0: "0 \<le> sint (now - start_time s)" using True assms(1) el by simp
    have e1: "sint (now - start_time s) < sint (vesting_duration s)" using True el by simp
    show ?thesis
      using eq assms(2) True interpolation_le [OF e0 e1, of "total_amount s"]
      by (auto split: option.splits)
  qed
qed

text \<open>
  With a cliff that is not negative and both sums in range, the program returns the
  piecewise function of the specification, read on the integers.
\<close>

lemma calculate_vested_amount_piecewise:
  assumes "\<not> is_revoked s" and "0 \<le> sint (cliff_duration s)"
    and "fits_i64 (sint (start_time s) + sint (cliff_duration s))"
    and "fits_i64 (sint (start_time s) + sint (vesting_duration s))"
  shows "\<exists>v. calculate_vested_amount s now = Inr v
     \<and> uint v =
        (if sint now < sint (start_time s) + sint (cliff_duration s) then 0
         else if sint (start_time s) + sint (vesting_duration s) \<le> sint now
           then uint (total_amount s)
         else uint (total_amount s) * (sint now - sint (start_time s))
                div sint (vesting_duration s))"
proof -
  note eq = vested_active [OF assms(1), of now]
  show ?thesis
  proof (cases "\<not> sint now < sint (start_time s) + sint (cliff_duration s)
      \<and> \<not> sint (start_time s) + sint (vesting_duration s) \<le> sint now")
    case False
    then show ?thesis using eq assms(3,4) by auto
  next
    case True
    have el: "sint (now - start_time s) = sint now - sint (start_time s)"
      using True assms(3,4) by (intro elapsed_exact) simp_all
    have e0: "0 \<le> sint (now - start_time s)" using True assms(2) el by simp
    have e1: "sint (now - start_time s) < sint (vesting_duration s)" using True el by simp
    obtain p q
      where p: "checked_mul (ucast (total_amount s) :: u128) (scast (now - start_time s))
          = Some p"
      and q: "checked_div p (scast (vesting_duration s)) = Some q"
      and v: "unat (ucast q :: u64)
          = unat (total_amount s) * nat (sint (now - start_time s))
              div nat (sint (vesting_duration s))"
      using interpolation_value [OF e0 e1, of "total_amount s"] by blast
    have "int (unat (ucast q :: u64))
        = int (unat (total_amount s)) * int (nat (sint (now - start_time s)))
            div int (nat (sint (vesting_duration s)))"
      unfolding v by (simp add: zdiv_int)
    then have "uint (ucast q :: u64)
        = uint (total_amount s) * (sint now - sint (start_time s)) div sint (vesting_duration s)"
      using e0 e1 el by simp
    then show ?thesis using eq True assms(3,4) p q by simp
  qed
qed

text \<open>
  Claim C7. In \<^const>\<open>calculate_vested_amount\<close> for a schedule that is not revoked, the
  cliff end is a checked addition and its overflow returns \<^verbatim>\<open>CalculationOverflow\<close>.
  The vesting end is a checked addition too, formed after the test against the cliff
  end: before the cliff end the function returns 0 without it, and from the cliff end on
  its overflow returns \<^verbatim>\<open>CalculationOverflow\<close>. The witness takes a start at the
  largest \<^verbatim>\<open>i64\<close> with a cliff of 100 seconds, and the schedule \<^const>\<open>late_start\<close>
  at time 0 and at the largest \<^verbatim>\<open>i64\<close>.
\<close>

theorem vested_checked_sums:
  assumes "\<not> is_revoked s"
  shows "(\<not> fits_i64 (sint (start_time s) + sint (cliff_duration s)) \<longrightarrow>
            calculate_vested_amount s now = Inl CalculationOverflow)
    \<and> (fits_i64 (sint (start_time s) + sint (cliff_duration s))
         \<and> sint now < sint (start_time s) + sint (cliff_duration s) \<longrightarrow>
            calculate_vested_amount s now = Inr 0)
    \<and> (fits_i64 (sint (start_time s) + sint (cliff_duration s))
         \<and> sint (start_time s) + sint (cliff_duration s) \<le> sint now
         \<and> \<not> fits_i64 (sint (start_time s) + sint (vesting_duration s)) \<longrightarrow>
            calculate_vested_amount s now = Inl CalculationOverflow)"
  by (simp add: vested_active [OF assms])

theorem vested_checked_sums_witness:
  "calculate_vested_amount (scenario_A_account 9223372036854775807) 0 = Inl CalculationOverflow
   \<and> calculate_vested_amount late_start 0 = Inr 0
   \<and> calculate_vested_amount late_start 9223372036854775807 = Inl CalculationOverflow"
proof -
  have a: "\<not> is_revoked (scenario_A_account 9223372036854775807)"
    by (simp add: scenario_A_account_def)
  have b: "\<not> is_revoked late_start"
    by (simp add: late_start_def)
  show ?thesis
    using vested_checked_sums [OF a, of 0] vested_checked_sums [OF b, of 0]
      vested_checked_sums [OF b, of 9223372036854775807]
    by (simp add: scenario_A_account_def late_start_def fits_i64_def)
qed

text \<open>
  The claim as the specification words it, an overflow of either sum at any time, fails
  for \<^const>\<open>late_start\<close> at time 0: the vesting end \<open>9223372036854775797 + 100\<close> is
  out of range, and the function returns 0. The front-end helper has no check on its sums
  at all: Scenario A with the start time \<open>2 ^ 53 - 1\<close> has a cliff end that is no safe
  integer, and \<^const>\<open>calculateVestedAmount\<close> returns 0 at time 0.
\<close>

theorem vesting_end_overflow_unreported:
  "\<not> is_revoked late_start
   \<and> \<not> fits_i64 (sint (start_time late_start) + sint (vesting_duration late_start))
   \<and> calculate_vested_amount late_start 0 = Inr 0
   \<and> calculate_vested_amount late_start 0 \<noteq> Inl CalculationOverflow
   \<and> \<not> js_safe (startTime (scenario_A 9007199254740991)
                  + cliffDuration (scenario_A 9007199254740991))
   \<and> calculateVestedAmount (scenario_A 9007199254740991) 0 = Inr 0"
  by (simp add: calculate_vested_amount_def late_start_def checked_add_i64_def fits_i64_def
      calculateVestedAmount_def scenario_A_def bn_toNumber_def js_safe_def Let_def)

subsection \<open>Creation\<close>

text \<open>
  Claim C6. \<^const>\<open>create_vesting_handler\<close> runs its checks in the order of section 4.1:
  the amount (\<^verbatim>\<open>InvalidAmount\<close>), the shortest duration (\<^verbatim>\<open>DurationTooShort\<close>), the
  longest duration (\<^verbatim>\<open>DurationTooLong\<close>), the cliff against the duration
  (\<^verbatim>\<open>InvalidCliff\<close>), the cliff percentage (\<^verbatim>\<open>CalculationOverflow\<close> when
  \<open>cliff_duration * 100\<close> leaves 64 bits, else \<^verbatim>\<open>CliffPercentageTooHigh\<close>), the
  start time (\<^verbatim>\<open>StartTimeInPast\<close>). The first check that fails gives the error and
  there is no schedule; when none fails the result is the new schedule. A duration of
  3600 seconds with an amount that is not zero fails with \<^verbatim>\<open>DurationTooShort\<close>
  whatever the other arguments are (Scenario B, which is the witness).
\<close>

theorem create_validation_order:
  "create_vesting_handler ctx amount start cliff vd now =
     (if amount = 0 then Inl InvalidAmount
      else if sint vd < 86400 then Inl DurationTooShort
      else if 315360000 < sint vd then Inl DurationTooLong
      else if sint vd < sint cliff then Inl InvalidCliff
      else if 2 ^ 64 \<le> unat cliff * 100 then Inl CalculationOverflow
      else if 50 < unat cliff * 100 div unat vd then Inl CliffPercentageTooHigh
      else if sint start \<le> sint now then Inl StartTimeInPast
      else Inr (new_schedule ctx amount start cliff vd))
   \<and> (amount \<noteq> 0 \<longrightarrow>
        create_vesting_handler ctx amount start cliff 3600 now = Inl DurationTooShort)"
proof
  show "amount \<noteq> 0 \<longrightarrow>
      create_vesting_handler ctx amount start cliff 3600 now = Inl DurationTooShort"
    by (simp add: create_vesting_handler_def word_gt_0 sint_MIN)
next
  show "create_vesting_handler ctx amount start cliff vd now =
     (if amount = 0 then Inl InvalidAmount
      else if sint vd < 86400 then Inl DurationTooShort
      else if 315360000 < sint vd then Inl DurationTooLong
      else if sint vd < sint cliff then Inl InvalidCliff
      else if 2 ^ 64 \<le> unat cliff * 100 then Inl CalculationOverflow
      else if 50 < unat cliff * 100 div unat vd then Inl CliffPercentageTooHigh
      else if sint start \<le> sint now then Inl StartTimeInPast
      else Inr (new_schedule ctx amount start cliff vd))"
  proof (cases "unat cliff * 100 < 2 ^ 64")
    case True
    then show ?thesis
      using long_enough_nonzero [of vd]
      by (simp add: create_vesting_handler_def duration_within_max_def
          cliff_within_duration_def word_gt_0 sint_MIN sint_MAX checked_mul_100
          checked_div_def percentage_le not_le not_less)
  next
    case False
    then show ?thesis
      by (simp add: create_vesting_handler_def duration_within_max_def
          cliff_within_duration_def word_gt_0 sint_MIN sint_MAX checked_mul_100
          not_le not_less)
  qed
qed

theorem create_validation_order_witness:
  "create_vesting_handler example_ctx 1000 1700003600 0 3600 1700000000 = Inl DurationTooShort"
  using create_validation_order [of example_ctx 1000 1700003600 0 3600 1700000000]
  by simp

text \<open>
  Claim C3. The handler compares the truncated quotient
  \<open>cliff_duration * 100 div vesting_duration\<close> with \<^verbatim>\<open>MAX_CLIFF_PERCENTAGE\<close>, so a
  cliff of up to one percent more than half the duration passes: a cliff of 43632
  seconds on a duration of 86400 is 50.5 percent, the quotient is 50, and the schedule
  is created with \<open>cliff_duration * 100 = 4363200\<close> above
  \<open>vesting_duration * 50 = 4320000\<close>.
\<close>

theorem create_accepts_cliff_above_half:
  "create_vesting_handler example_ctx 1000 1700003600 43632 86400 1700000000
     = Inr (new_schedule example_ctx 1000 1700003600 43632 86400)
   \<and> unat (vesting_duration (new_schedule example_ctx 1000 1700003600 43632 86400))
        * unat MAX_CLIFF_PERCENTAGE
      < unat (cliff_duration (new_schedule example_ctx 1000 1700003600 43632 86400)) * 100"
  by (simp add: create_vesting_handler_def duration_within_max_def cliff_within_duration_def
      new_schedule_def MIN_VESTING_DURATION_def MAX_VESTING_DURATION_def
      MAX_CLIFF_PERCENTAGE_def checked_mul_def checked_div_def)

subsection \<open>Revocation\<close>

text \<open>
  Claim C5. \<^const>\<open>revoke_handler\<close> fails with \<^verbatim>\<open>VestingRevoked\<close>, the program's error
  for a schedule that is revoked already, whenever \<open>is_revoked\<close> is set. For a
  schedule that is not revoked it fails with \<^verbatim>\<open>VestingCompleted\<close> when the vested
  amount is the total amount; when the vested amount is below the total amount it
  returns the difference, sets \<open>is_revoked\<close> and stores the difference in
  \<open>revoked_amount\<close>, and leaves \<open>claimed_amount\<close> and every other field as they
  were; an error of the vested amount is returned as it is. The witness is Scenario E:
  Scenario A revoked at \<open>T + 500\<close> gives back 500.
\<close>

theorem revoke_handler_effect:
  "(is_revoked s \<longrightarrow> revoke_handler s now = Inl VestingRevoked)
   \<and> (\<not> is_revoked s \<and> calculate_vested_amount s now = Inr (total_amount s) \<longrightarrow>
        revoke_handler s now = Inl VestingCompleted)
   \<and> (\<not> is_revoked s \<and> calculate_vested_amount s now = Inr v \<and> v < total_amount s \<longrightarrow>
        revoke_handler s now =
          Inr (total_amount s - v,
               s\<lparr>is_revoked := True, revoked_amount := total_amount s - v\<rparr>)
        \<and> unat (total_amount s - v) = unat (total_amount s) - unat v)
   \<and> (\<not> is_revoked s \<and> calculate_vested_amount s now = Inl e \<longrightarrow>
        revoke_handler s now = Inl e)"
  by (auto simp: revoke_handler_def is_fully_vested_def calculate_unvested_amount_def
      checked_sub_def unat_sub)

text \<open>Scenario A on chain, at the four times of the scenario.\<close>

lemma scenario_A_account_vested:
  "calculate_vested_amount (scenario_A_account 1700000000) 1700000050 = Inr 0"
  "calculate_vested_amount (scenario_A_account 1700000000) 1700000100 = Inr 100"
  "calculate_vested_amount (scenario_A_account 1700000000) 1700000500 = Inr 500"
  "calculate_vested_amount (scenario_A_account 1700000000) 1700001000 = Inr 1000"
  by (simp_all add: calculate_vested_amount_def scenario_A_account_def checked_add_i64_def
      fits_i64_def checked_mul_def checked_div_def Let_def)

theorem revoke_handler_effect_witness:
  "revoke_handler (scenario_A_account 1700000000) 1700000500
     = Inr (500, (scenario_A_account 1700000000)\<lparr>is_revoked := True, revoked_amount := 500\<rparr>)
   \<and> revoke_handler (scenario_A_account 1700000000) 1700001000 = Inl VestingCompleted
   \<and> revoke_handler
        ((scenario_A_account 1700000000)\<lparr>is_revoked := True, revoked_amount := 500\<rparr>)
        1700000600 = Inl VestingRevoked"
  using revoke_handler_effect [of "scenario_A_account 1700000000" 1700000500 500]
    revoke_handler_effect [of "scenario_A_account 1700000000" 1700001000]
    revoke_handler_effect
      [of "(scenario_A_account 1700000000)\<lparr>is_revoked := True, revoked_amount := 500\<rparr>"
        1700000600]
    scenario_A_account_vested
  by (simp add: scenario_A_account_def)

text \<open>
  The error of a second revocation is \<^verbatim>\<open>VestingRevoked\<close>, not the
  \<^verbatim>\<open>AlreadyRevoked\<close> of the specification's error list.
\<close>

theorem revoke_twice_error_name:
  "is_revoked ((scenario_A_account 1700000000)\<lparr>is_revoked := True, revoked_amount := 500\<rparr>)
   \<and> revoke_handler
        ((scenario_A_account 1700000000)\<lparr>is_revoked := True, revoked_amount := 500\<rparr>)
        1700000600 = Inl VestingRevoked
   \<and> revoke_handler
        ((scenario_A_account 1700000000)\<lparr>is_revoked := True, revoked_amount := 500\<rparr>)
        1700000600 \<noteq> Inl AlreadyRevoked"
  by (simp add: revoke_handler_def scenario_A_account_def)

text \<open>
  A revocation freezes the vested amount: at every later or earlier time the revoked
  schedule has the vested amount it had when it was revoked.
\<close>

lemma revoke_freezes_vested:
  assumes "revoke_handler s r = Inr (unvested, s')"
  shows "calculate_vested_amount s' t = calculate_vested_amount s r"
proof -
  from assms obtain v where nr: "\<not> is_revoked s"
    and v: "calculate_vested_amount s r = Inr v"
    and le: "v \<le> total_amount s"
    and u: "unvested = total_amount s - v"
    and s': "s' = s\<lparr>is_revoked := True, revoked_amount := total_amount s - v\<rparr>"
    by (auto simp: revoke_handler_def calculate_unvested_amount_def checked_sub_def
        split: if_splits sum.splits)
  have "total_amount s - v \<le> total_amount s"
    using le by (simp add: word_le_nat_alt unat_sub)
  then have "saturating_sub (total_amount s) (total_amount s - v) = v"
    by (simp add: saturating_sub_def)
  then show ?thesis
    using v s' by (simp add: calculate_vested_amount_def)
qed

section \<open>The front end after a revocation\<close>






end
